theory Spec2Isabelle
  imports Main
begin

section \<open>Live transcription session manager of the voice dictation backend\<close>

text \<open>
  The development embeds \<^verbatim>\<open>deepgram_service.py\<close> (class \<open>DeepgramService\<close>) and the
  Socket.IO handlers and summary parser of \<^verbatim>\<open>flaskapp5.py\<close>.

  Python strings are modelled as HOL strings holding the UTF-8 encoding of the text, so
  one code point is one to four characters. Where the source counts code points
  (\<open>translation[:200]\<close>) or classifies them (\<open>str.strip()\<close>) the model does so on the
  encoding.

  External calls (the Deepgram connection, the Gemini model, the file system, the clock,
  the environment) are inputs of the handlers: each handler takes the outcome of the
  external calls it makes as an argument. The background threads the handlers start are
  run to completion inside the handler, outside the handler's request context.
\<close>

subsection \<open>Python string operations\<close>

text \<open>
  \<open>str.strip()\<close> removes the code points Python classifies as whitespace: U+0009..U+000D,
  U+001C..U+0020, U+0085, U+00A0, U+1680, U+2000..U+200A, U+2028, U+2029, U+202F, U+205F
  and U+3000. \<open>ws1\<close>, \<open>ws2\<close> and \<open>ws3\<close> recognise their encodings of one, two and three
  characters.
\<close>

definition ws1 :: "char \<Rightarrow> bool" where
  "ws1 a = (let n = (of_char a :: nat) in (9 \<le> n \<and> n \<le> 13) \<or> (28 \<le> n \<and> n \<le> 32))"

definition ws2 :: "char \<Rightarrow> char \<Rightarrow> bool" where
  "ws2 a b = ((of_char a :: nat) = 0xC2 \<and> ((of_char b :: nat) = 0x85 \<or> (of_char b :: nat) = 0xA0))"

definition ws3 :: "char \<Rightarrow> char \<Rightarrow> char \<Rightarrow> bool" where
  "ws3 a b c =
     (let x = (of_char a :: nat); y = (of_char b :: nat); z = (of_char c :: nat) in
        (x = 0xE1 \<and> y = 0x9A \<and> z = 0x80) \<or>
        (x = 0xE2 \<and> y = 0x80 \<and> ((0x80 \<le> z \<and> z \<le> 0x8A) \<or> z = 0xA8 \<or> z = 0xA9 \<or> z = 0xAF)) \<or>
        (x = 0xE2 \<and> y = 0x81 \<and> z = 0x9F) \<or>
        (x = 0xE3 \<and> y = 0x80 \<and> z = 0x80))"

fun lstrip :: "string \<Rightarrow> string" where
  "lstrip [] = []"
| "lstrip [a] = (if ws1 a then [] else [a])"
| "lstrip [a, b] = (if ws1 a then lstrip [b] else if ws2 a b then [] else [a, b])"
| "lstrip (a # b # c # s) =
     (if ws1 a then lstrip (b # c # s)
      else if ws2 a b then lstrip (c # s)
      else if ws3 a b c then lstrip s
      else a # b # c # s)"

text \<open>The same from the right end, on the reversed text: the last character comes first.\<close>

fun rstrip_rev :: "string \<Rightarrow> string" where
  "rstrip_rev [] = []"
| "rstrip_rev [a] = (if ws1 a then [] else [a])"
| "rstrip_rev [a, b] = (if ws1 a then rstrip_rev [b] else if ws2 b a then [] else [a, b])"
| "rstrip_rev (a # b # c # s) =
     (if ws1 a then rstrip_rev (b # c # s)
      else if ws2 b a then rstrip_rev (c # s)
      else if ws3 c b a then rstrip_rev s
      else a # b # c # s)"

definition rstrip :: "string \<Rightarrow> string" where
  "rstrip s = rev (rstrip_rev (rev s))"

definition strip :: "string \<Rightarrow> string" where
  "strip s = rstrip (lstrip s)"

text \<open>
  \<open>s.find(c)\<close> and \<open>s.rfind(c)\<close>: the position of the first and of the last occurrence, or
  \<open>-1\<close>. The positions count characters of the encoding; the source only compares them
  with \<open>-1\<close> and slices the same text with them.
\<close>

fun find_from :: "nat \<Rightarrow> char \<Rightarrow> string \<Rightarrow> int" where
  "find_from i c [] = -1"
| "find_from i c (x # xs) = (if x = c then int i else find_from (Suc i) c xs)"

definition str_find :: "string \<Rightarrow> char \<Rightarrow> int" where
  "str_find s c = find_from 0 c s"

fun rfind_from :: "nat \<Rightarrow> int \<Rightarrow> char \<Rightarrow> string \<Rightarrow> int" where
  "rfind_from i found c [] = found"
| "rfind_from i found c (x # xs) = rfind_from (Suc i) (if x = c then int i else found) c xs"

definition str_rfind :: "string \<Rightarrow> char \<Rightarrow> int" where
  "str_rfind s c = rfind_from 0 (-1) c s"

text \<open>\<open>s[a:b]\<close>: a negative bound counts from the end, and both bounds are clipped.\<close>

definition clip :: "string \<Rightarrow> int \<Rightarrow> nat" where
  "clip s i =
     (let n = int (length s) in
      if i < 0 then nat (max 0 (i + n)) else nat (min i n))"

definition slice :: "string \<Rightarrow> int \<Rightarrow> int \<Rightarrow> string" where
  "slice s a b = take (clip s b - clip s a) (drop (clip s a) s)"

text \<open>
  \<open>s[:n]\<close> counts code points: a character \<open>10xxxxxx\<close> continues the code point before it.
\<close>

definition continuation :: "char \<Rightarrow> bool" where
  "continuation c = (0x80 \<le> (of_char c :: nat) \<and> (of_char c :: nat) < 0xC0)"

fun take_points :: "nat \<Rightarrow> string \<Rightarrow> string" where
  "take_points n [] = []"
| "take_points n (c # cs) =
     (if continuation c then c # take_points n cs
      else (case n of 0 \<Rightarrow> [] | Suc m \<Rightarrow> c # take_points m cs))"

subsection \<open>Exceptions and emitted events\<close>

datatype error =
    RuntimeError string
  | JSONDecodeError
  | ExternalError string

text \<open>
  The text of a \<open>live_transcription_error\<close> event: a literal, \<open>str(e)\<close>, or
  \<open>f'Failed to process transcript: {str(e)}'\<close>.
\<close>

datatype error_text =
    Literal string
  | Str error
  | Failed_to_process error

text \<open>
  A value returned by \<open>json.loads\<close> is represented by the JSON text it was decoded from.
  \<open>summary_data\<close> is such a value (\<open>Loaded\<close>) or the dictionary literal of the source
  (\<open>Dict\<close>, in the order written).
\<close>

datatype json = JSON string

datatype summary_data =
    Loaded json
  | Dict "(string \<times> string) list"

text \<open>
  The events sent to the client of a connection. \<open>live_transcript\<close> also carries the
  constant \<open>confidence = 0.9\<close>, left out here.
\<close>

datatype emit =
    Transcription_started string string
  | Live_transcript string bool
  | Live_transcription_error error_text
  | Live_transcription_complete bool string string summary_data string

subsection \<open>The request context\<close>

text \<open>
  Flask's \<open>request\<close> is bound to the context of the event being handled. Code that runs in
  a handler sees the connection of that event (\<open>Some sid\<close>). Code that runs in a thread
  started by a handler, or in a task of the Deepgram connection, runs outside any request
  context (\<open>None\<close>), where reading \<open>request.sid\<close> raises \<open>RuntimeError\<close>; \<open>outside_request\<close>
  carries the first line of its message.
\<close>

type_synonym sid = string

definition outside_request :: error where
  "outside_request = RuntimeError ''Working outside of request context.''"

definition request_sid :: "sid option \<Rightarrow> error + sid" where
  "request_sid request = (case request of None \<Rightarrow> Inl outside_request | Some sid \<Rightarrow> Inr sid)"

text \<open>
  \<open>socketio.emit(event, payload, room=request.sid)\<close>: the arguments are evaluated before
  the call, so nothing is sent where \<open>request.sid\<close> raises.
\<close>

definition socketio_emit :: "sid option \<Rightarrow> emit \<Rightarrow> error + emit list" where
  "socketio_emit request event =
     (case request_sid request of Inl e \<Rightarrow> Inl e | Inr sid \<Rightarrow> Inr [event])"

subsection \<open>The Deepgram service\<close>

text \<open>
  The fields of a \<open>DeepgramService\<close> object. \<open>connection\<close> tells whether the attribute holds a
  connection object rather than \<open>None\<close>, \<open>callback\<close> whether it holds a callback. The only
  callback ever stored is the closure \<open>send_transcript_to_client\<close>, which captures no
  connection identifier: it reads \<open>request.sid\<close> when it is called.
\<close>

record deepgram_service =
  connection :: bool
  final_transcript :: string
  last_interim :: string
  active :: bool
  callback :: bool

text \<open>
  An entry of \<open>active_transcriptions\<close>. The entry refers to its service object, which the
  threads started by the handlers share: services live in a store, addressed by numbers.
\<close>

record session =
  service :: nat
  language_code :: string
  transcript_parts :: "string list"
  interim_transcript :: string
  start_time :: nat

record state =
  services :: "nat \<Rightarrow> deepgram_service option"
  next_service :: nat
  active_transcriptions :: "sid \<Rightarrow> session option"

text \<open>
  A message of the Deepgram connection: the transcripts of the channel's alternatives
  (\<open>None\<close> when the result has no channel) and the \<open>is_final\<close> flag.
\<close>

record dg_result =
  channel :: "string list option"
  is_final :: bool

text \<open>What \<open>connection.start\<close> and the calls before it do, in \<open>start_transcription\<close>.\<close>

datatype upstream =
    Connect_raises
  | Start_raises
  | Start_false
  | Start_true

definition missing_key :: string where
  "missing_key = CHR 0xE2 # CHR 0x9D # CHR 0x8C # '' DEEPGRAM_API_KEY missing''"

text \<open>\<open>DeepgramService.__init__\<close>, given \<open>os.getenv("DEEPGRAM_API_KEY")\<close>.\<close>

definition DeepgramService :: "string option \<Rightarrow> error + deepgram_service" where
  "DeepgramService api_key =
     (if api_key = None \<or> api_key = Some [] then Inl (RuntimeError missing_key)
      else Inr \<lparr>connection = False, final_transcript = [], last_interim = [],
                 active = False, callback = False\<rparr>)"

text \<open>
  \<open>send_transcript_to_client\<close>, the closure created by the start handler, called in the
  request context \<open>request\<close>. Its first statement reads \<open>request.sid\<close>.
\<close>

definition send_transcript_to_client ::
  "sid option \<Rightarrow> string \<Rightarrow> bool \<Rightarrow> state \<Rightarrow> error + state \<times> emit list" where
  "send_transcript_to_client request transcript final st =
     (case request_sid request of
        Inl e \<Rightarrow> Inl e
      | Inr sid \<Rightarrow>
          (case active_transcriptions st sid of
             None \<Rightarrow> Inr (st, [])
           | Some session_data \<Rightarrow>
               (let session_data' =
                      (if final
                       then session_data\<lparr>transcript_parts := transcript_parts session_data @ [transcript],
                                          interim_transcript := []\<rparr>
                       else session_data\<lparr>interim_transcript := transcript\<rparr>)
                in Inr (st\<lparr>active_transcriptions := (active_transcriptions st)(sid \<mapsto> session_data')\<rparr>,
                        [Live_transcript transcript final]))))"

text \<open>
  The guards of \<open>on_message\<close>: the text of the first alternative, or \<open>None\<close> where the
  handler returns at once (no channel, no alternative, an empty transcript).
\<close>

definition sentence :: "dg_result \<Rightarrow> string option" where
  "sentence result =
     (case channel result of
        None \<Rightarrow> None
      | Some [] \<Rightarrow> None
      | Some (s # _) \<Rightarrow> (if s = [] then None else Some s))"

text \<open>
  \<open>on_message\<close> of the service at address \<open>r\<close>. The connection awaits it in one of its own
  tasks, so the callback is called outside any request context; an exception of the
  callback is caught by the handler's \<open>except\<close> branch, after the service's fields have
  been assigned.
\<close>

definition on_message :: "nat \<Rightarrow> dg_result \<Rightarrow> state \<Rightarrow> state \<times> emit list" where
  "on_message r result st =
     (case services st r of
        None \<Rightarrow> (st, [])
      | Some svc \<Rightarrow>
          (case sentence result of
             None \<Rightarrow> (st, [])
           | Some s \<Rightarrow>
               (if is_final result then
                  (let st1 = st\<lparr>services := (services st)
                               (r \<mapsto> svc\<lparr>final_transcript := final_transcript svc @ s @ '' '',
                                          last_interim := []\<rparr>)\<rparr>
                   in if callback svc then
                        (case send_transcript_to_client None s True st1 of
                           Inl e \<Rightarrow> (st1, [])
                         | Inr sent \<Rightarrow> sent)
                      else (st1, []))
                else
                  (let st1 = st\<lparr>services := (services st)(r \<mapsto> svc\<lparr>last_interim := s\<rparr>)\<rparr>
                   in if callback svc then
                        (case send_transcript_to_client None s False st1 of
                           Inl e \<Rightarrow> (st1, [])
                         | Inr sent \<Rightarrow> sent)
                      else (st1, [])))))"

text \<open>The messages of a connection, handled one after the other in arrival order.\<close>

fun on_messages :: "nat \<Rightarrow> dg_result list \<Rightarrow> state \<Rightarrow> state \<times> emit list" where
  "on_messages r [] st = (st, [])"
| "on_messages r (result # results) st =
     (let (st1, out1) = on_message r result st;
          (st2, out2) = on_messages r results st1
      in (st2, out1 @ out2))"

text \<open>
  \<open>start_transcription\<close>, whose argument \<open>send_to_client\<close> is always the closure above: the
  assignments before the connection is created always run; an exception anywhere in the
  body is caught and gives \<open>False\<close>.
\<close>

definition start_transcription :: "nat \<Rightarrow> upstream \<Rightarrow> state \<Rightarrow> state \<times> bool" where
  "start_transcription r up st =
     (case services st r of
        None \<Rightarrow> (st, False)
      | Some svc \<Rightarrow>
          (let svc1 = svc\<lparr>callback := True, final_transcript := [],
                          last_interim := []\<rparr>;
               put = (\<lambda>v. st\<lparr>services := (services st)(r \<mapsto> v)\<rparr>)
           in case up of
                Connect_raises \<Rightarrow> (put svc1, False)
              | Start_raises \<Rightarrow> (put (svc1\<lparr>connection := True\<rparr>), False)
              | Start_false \<Rightarrow> (put (svc1\<lparr>connection := True\<rparr>), False)
              | Start_true \<Rightarrow> (put (svc1\<lparr>connection := True, active := True\<rparr>), True)))"

text \<open>\<open>send_audio\<close> forwards the chunk when the service is active; it changes no field.\<close>

definition send_audio :: "bool \<Rightarrow> deepgram_service \<Rightarrow> bool" where
  "send_audio send_raises svc =
     (if connection svc \<and> active svc then \<not> send_raises else False)"

text \<open>
  \<open>finish\<close>: \<open>trailing\<close> are the messages that arrive while \<open>connection.finish()\<close> is awaited,
  \<open>close_raises\<close> tells whether that call then raises. Both ways return the stripped text.
\<close>

definition final_text :: "state \<Rightarrow> nat \<Rightarrow> string" where
  "final_text st r = (case services st r of None \<Rightarrow> [] | Some svc \<Rightarrow> strip (final_transcript svc))"

definition finish ::
  "nat \<Rightarrow> dg_result list \<Rightarrow> bool \<Rightarrow> state \<Rightarrow> state \<times> emit list \<times> string" where
  "finish r trailing close_raises st =
     (case services st r of
        None \<Rightarrow> (st, [], [])
      | Some svc \<Rightarrow>
          (let st1 = st\<lparr>services := (services st)(r \<mapsto> svc\<lparr>active := False\<rparr>)\<rparr>;
               (st2, out) = (if connection svc then on_messages r trailing st1 else (st1, []))
           in if close_raises \<and> connection svc
              then (st2, out, final_text st2 r)
              else (st2, out, final_text st2 r)))"

subsection \<open>The JSON decoder\<close>

text \<open>
  \<open>json.loads\<close> belongs to Python's library. The parser below takes it as a parameter;
  \<open>json_loads\<close> is a model of it for closed examples: it accepts the texts of the grammar
  the library decodes (objects, arrays, strings with their escapes, numbers, \<open>null\<close>,
  \<open>true\<close>, \<open>false\<close>, \<open>NaN\<close>, \<open>Infinity\<close>, \<open>-Infinity\<close>, blanks between tokens and
  nothing after the value) and raises \<open>JSONDecodeError\<close> on every other text. The limits
  of an implementation (the depth of nesting, the number of digits of an integer) are not
  part of it. The recogniser reads the text once, with the open containers on a stack.
\<close>

datatype container = Array | Object

datatype mode =
    Value
  | Value_or_end_array
  | Key_or_end_object
  | Key
  | Colon
  | After
  | Text bool
  | Escape bool
  | Hex bool nat
  | Word string
  | Minus
  | Zero
  | Digits
  | Point
  | Fraction
  | Exponent_mark
  | Exponent_sign
  | Exponent
  | Fail

definition blank :: "char \<Rightarrow> bool" where
  "blank c = (c = CHR '' '' \<or> c = CHR 0x09 \<or> c = CHR 0x0A \<or> c = CHR 0x0D)"

definition digit :: "char \<Rightarrow> bool" where
  "digit c = (c \<in> set ''0123456789'')"

definition hex_digit :: "char \<Rightarrow> bool" where
  "hex_digit c = (c \<in> set ''0123456789abcdefABCDEF'')"

definition start_value :: "char \<Rightarrow> container list \<Rightarrow> mode \<times> container list" where
  "start_value c stack =
     (if c = CHR 0x22 then (Text False, stack)
      else if c = CHR ''{'' then (Key_or_end_object, Object # stack)
      else if c = CHR ''['' then (Value_or_end_array, Array # stack)
      else if c = CHR ''n'' then (Word ''ull'', stack)
      else if c = CHR ''t'' then (Word ''rue'', stack)
      else if c = CHR ''f'' then (Word ''alse'', stack)
      else if c = CHR ''N'' then (Word ''aN'', stack)
      else if c = CHR ''I'' then (Word ''nfinity'', stack)
      else if c = CHR ''-'' then (Minus, stack)
      else if c = CHR ''0'' then (Zero, stack)
      else if digit c then (Digits, stack)
      else (Fail, stack))"

definition after_value :: "char \<Rightarrow> container list \<Rightarrow> mode \<times> container list" where
  "after_value c stack =
     (if blank c then (After, stack)
      else case stack of
             [] \<Rightarrow> (Fail, stack)
           | Array # rest \<Rightarrow>
               (if c = CHR '','' then (Value, stack)
                else if c = CHR '']'' then (After, rest)
                else (Fail, stack))
           | Object # rest \<Rightarrow>
               (if c = CHR '','' then (Key, stack)
                else if c = CHR ''}'' then (After, rest)
                else (Fail, stack)))"

fun step :: "mode \<times> container list \<Rightarrow> char \<Rightarrow> mode \<times> container list" where
  "step (Value, stack) c = (if blank c then (Value, stack) else start_value c stack)"
| "step (Value_or_end_array, stack) c =
     (if blank c then (Value_or_end_array, stack)
      else if c = CHR '']'' then (After, tl stack)
      else start_value c stack)"
| "step (Key_or_end_object, stack) c =
     (if blank c then (Key_or_end_object, stack)
      else if c = CHR ''}'' then (After, tl stack)
      else if c = CHR 0x22 then (Text True, stack)
      else (Fail, stack))"
| "step (Key, stack) c =
     (if blank c then (Key, stack)
      else if c = CHR 0x22 then (Text True, stack)
      else (Fail, stack))"
| "step (Colon, stack) c =
     (if blank c then (Colon, stack)
      else if c = CHR '':'' then (Value, stack)
      else (Fail, stack))"
| "step (After, stack) c = after_value c stack"
| "step (Text key, stack) c =
     (if c = CHR 0x22 then (if key then Colon else After, stack)
      else if c = CHR 0x5C then (Escape key, stack)
      else if (of_char c :: nat) < 0x20 then (Fail, stack)
      else (Text key, stack))"
| "step (Escape key, stack) c =
     (if c = CHR 0x22 \<or> c = CHR 0x5C \<or> c \<in> set ''/bfnrt'' then (Text key, stack)
      else if c = CHR ''u'' then (Hex key 4, stack)
      else (Fail, stack))"
| "step (Hex key n, stack) c =
     (if hex_digit c then (if n \<le> 1 then Text key else Hex key (n - 1), stack)
      else (Fail, stack))"
| "step (Word w, stack) c =
     (case w of
        [] \<Rightarrow> after_value c stack
      | x # xs \<Rightarrow>
          (if c = x then (if xs = [] then After else Word xs, stack) else (Fail, stack)))"
| "step (Minus, stack) c =
     (if c = CHR ''0'' then (Zero, stack)
      else if digit c then (Digits, stack)
      else if c = CHR ''I'' then (Word ''nfinity'', stack)
      else (Fail, stack))"
| "step (Zero, stack) c =
     (if c = CHR ''.'' then (Point, stack)
      else if c = CHR ''e'' \<or> c = CHR ''E'' then (Exponent_mark, stack)
      else after_value c stack)"
| "step (Digits, stack) c =
     (if digit c then (Digits, stack)
      else if c = CHR ''.'' then (Point, stack)
      else if c = CHR ''e'' \<or> c = CHR ''E'' then (Exponent_mark, stack)
      else after_value c stack)"
| "step (Point, stack) c = (if digit c then (Fraction, stack) else (Fail, stack))"
| "step (Fraction, stack) c =
     (if digit c then (Fraction, stack)
      else if c = CHR ''e'' \<or> c = CHR ''E'' then (Exponent_mark, stack)
      else after_value c stack)"
| "step (Exponent_mark, stack) c =
     (if c = CHR ''+'' \<or> c = CHR ''-'' then (Exponent_sign, stack)
      else if digit c then (Exponent, stack)
      else (Fail, stack))"
| "step (Exponent_sign, stack) c = (if digit c then (Exponent, stack) else (Fail, stack))"
| "step (Exponent, stack) c = (if digit c then (Exponent, stack) else after_value c stack)"
| "step (Fail, stack) c = (Fail, stack)"

definition accepting :: "mode \<times> container list \<Rightarrow> bool" where
  "accepting ms = (snd ms = [] \<and> fst ms \<in> {After, Zero, Digits, Fraction, Exponent})"

definition json_loads :: "string \<Rightarrow> error + json" where
  "json_loads s = (if accepting (foldl step (Value, []) s) then Inr (JSON s) else Inl JSONDecodeError)"

subsection \<open>The summary parser\<close>

text \<open>
  \<open>generate_structured_medical_summary\<close>. \<open>response\<close> is the outcome of
  \<open>model.generate_content(prompt)\<close> and of reading its \<open>text\<close>; \<open>loads\<close> is \<open>json.loads\<close>. An
  exception of either is not caught here.
\<close>

definition generate_structured_medical_summary ::
  "(error + string) \<Rightarrow> (string \<Rightarrow> error + json) \<Rightarrow> string \<Rightarrow> error + summary_data" where
  "generate_structured_medical_summary response loads translation =
     (case response of
        Inl e \<Rightarrow> Inl e
      | Inr text \<Rightarrow>
          (let response_text = strip text;
               json_start = str_find response_text (CHR ''{'');
               json_end = str_rfind response_text (CHR ''}'')
           in if json_start \<noteq> -1 \<and> json_end \<noteq> -1 then
                (let json_str = slice response_text json_start (json_end + 1)
                 in case loads json_str of
                      Inl e \<Rightarrow> Inl e
                    | Inr summary_data \<Rightarrow> Inr (Loaded summary_data))
              else
                Inr (Dict [(''summary'', take_points 200 translation),
                           (''medical_condition'', ''Not extracted''),
                           (''treatment_plan'', ''Not extracted''),
                           (''followup_date'', ''Not specified'')])))"

subsection \<open>The Socket.IO handlers\<close>

text \<open>
  \<open>handle_start_live_transcription\<close> for the connection \<open>sid\<close>: \<open>data\<close> is the payload,
  \<open>api_key\<close> the environment variable read by the service, \<open>now\<close> the clock, \<open>up\<close> what the
  Deepgram connection does in the thread \<open>start_deepgram\<close>, whose result the handler does
  not read.
\<close>

definition handle_start_live_transcription ::
  "sid \<Rightarrow> (string \<Rightarrow> string option) \<Rightarrow> string option \<Rightarrow> nat \<Rightarrow> upstream \<Rightarrow> state
     \<Rightarrow> state \<times> emit list" where
  "handle_start_live_transcription sid data api_key now up st =
     (let language = (case data ''language_code'' of None \<Rightarrow> ''en-US'' | Some l \<Rightarrow> l)
      in case DeepgramService api_key of
           Inl e \<Rightarrow> (st, [Live_transcription_error (Str e)])
         | Inr deepgram_service \<Rightarrow>
             (let r = next_service st;
                  st1 = st\<lparr>services := (services st)(r \<mapsto> deepgram_service),
                           next_service := Suc r,
                           active_transcriptions := (active_transcriptions st)
                             (sid \<mapsto> \<lparr>service = r, language_code = language,
                                      transcript_parts = [], interim_transcript = [],
                                      start_time = now\<rparr>)\<rparr>;
                  (st2, started) = start_transcription r up st1
              in (st2, [Transcription_started ''success'' ''Live transcription started''])))"

text \<open>
  \<open>handle_disconnect\<close>, which runs in the handler throughout. Every entry has the key
  \<open>'service'\<close>, so \<open>finish\<close> runs whenever the entry exists.
\<close>

definition handle_disconnect :: "sid \<Rightarrow> dg_result list \<Rightarrow> bool \<Rightarrow> state \<Rightarrow> state" where
  "handle_disconnect sid trailing close_raises st =
     (case active_transcriptions st sid of
        None \<Rightarrow> st
      | Some transcription_data \<Rightarrow>
          (let (st1, out, final) = finish (service transcription_data) trailing close_raises st
           in st1\<lparr>active_transcriptions := (active_transcriptions st1)(sid := None)\<rparr>))"

text \<open>
  What the outside world does during \<open>finalize_transcription\<close>: the messages trailing the
  close and whether the close raises, an exception of \<open>initialize_gemini\<close>, the model's
  response, \<open>json.loads\<close>, an exception of creating and writing the transcript file, and the
  formatted clock in the file name.
\<close>

record externals =
  trailing :: "dg_result list"
  close_raises :: bool
  gemini :: "error option"
  response :: "error + string"
  loads :: "string \<Rightarrow> error + json"
  written :: "error option"
  stamp :: string

text \<open>The body of the \<open>try\<close> block of \<open>finalize_transcription\<close>, up to the emit.\<close>

definition process_final :: "externals \<Rightarrow> string \<Rightarrow> error + emit" where
  "process_final ext final_transcript' =
     (case gemini ext of
        Some e \<Rightarrow> Inl e
      | None \<Rightarrow>
          (let english_transcript = final_transcript'
           in case generate_structured_medical_summary (response ext) (loads ext) english_transcript of
                Inl e \<Rightarrow> Inl e
              | Inr summary_data \<Rightarrow>
                  (let recording_file = ''recordings/live_'' @ stamp ext @ ''.txt''
                   in case written ext of
                        Some e \<Rightarrow> Inl e
                      | None \<Rightarrow>
                          Inr (Live_transcription_complete True final_transcript'
                                 english_transcript summary_data recording_file))))"

text \<open>
  \<open>finalize_transcription\<close> for the service at address \<open>r\<close>, run in the request context
  \<open>request\<close>. \<open>tried\<close> is the \<open>try\<close> block with its emit, \<open>handled\<close> adds the \<open>except\<close> branch,
  whose own emit is not guarded: where it raises, the function ends there, before the
  entry is deleted. The events are in the order sent.
\<close>

definition finalize_transcription ::
  "sid option \<Rightarrow> nat \<Rightarrow> externals \<Rightarrow> state \<Rightarrow> state \<times> emit list" where
  "finalize_transcription request r ext st =
     (let (st1, out, final) = finish r (trailing ext) (close_raises ext) st;
          tried = (case process_final ext final of
                     Inl e \<Rightarrow> Inl e
                   | Inr result \<Rightarrow> socketio_emit request result);
          handled = (case tried of
                       Inr sent \<Rightarrow> Inr sent
                     | Inl e \<Rightarrow> socketio_emit request (Live_transcription_error (Failed_to_process e)))
      in case handled of
           Inl e \<Rightarrow> (st1, out)
         | Inr sent \<Rightarrow>
             (case request_sid request of
                Inl e \<Rightarrow> (st1, out @ sent)
              | Inr sid \<Rightarrow>
                  (if active_transcriptions st1 sid \<noteq> None
                   then (st1\<lparr>active_transcriptions := (active_transcriptions st1)(sid := None)\<rparr>,
                         out @ sent)
                   else (st1, out @ sent))))"

text \<open>
  \<open>handle_stop_live_transcription\<close>. The test for the entry and the reply of the branch
  without one run in the handler. \<open>finalize_transcription\<close> runs in a thread of its own,
  outside the handler's request context, here to its end.
\<close>

definition handle_stop_live_transcription ::
  "sid \<Rightarrow> externals \<Rightarrow> state \<Rightarrow> state \<times> emit list" where
  "handle_stop_live_transcription sid ext st =
     (case active_transcriptions st sid of
        None \<Rightarrow> (st, [Live_transcription_error (Literal ''No active transcription session'')])
      | Some session_data \<Rightarrow> finalize_transcription None (service session_data) ext st)"

text \<open>The state of a freshly started server process: no service, no session.\<close>

definition initial :: state where
  "initial = \<lparr>services = (\<lambda>r. None), next_service = 0, active_transcriptions = (\<lambda>sid. None)\<rparr>"

subsection \<open>Concrete runs\<close>

text \<open>
  The inputs of the closed examples: a client \<open>c1\<close> that starts a session for \<open>en-US\<close>,
  dictates one utterance (two interim results, then the final one) and stops, and the ways
  the summary step can answer.
\<close>

definition en_US :: "string \<Rightarrow> string option" where
  "en_US = [''language_code'' \<mapsto> ''en-US'']"

definition started :: state where
  "started = fst (handle_start_live_transcription ''c1'' en_US (Some ''dg-key'') 0 Start_true initial)"

definition dictation :: "dg_result list" where
  "dictation =
     [\<lparr>channel = Some [''patient''], is_final = False\<rparr>,
      \<lparr>channel = Some [''patient reports''], is_final = False\<rparr>,
      \<lparr>channel = Some [''patient reports fever''], is_final = True\<rparr>]"

definition dictated :: state where
  "dictated = fst (on_messages 0 dictation started)"

definition summary_json :: string where
  "summary_json =
     ''{'' @ [CHR 0x22] @ ''summary'' @ [CHR 0x22] @ '': '' @ [CHR 0x22] @ ''fever'' @ [CHR 0x22] @ ''}''"

definition answered :: externals where
  "answered =
     \<lparr>trailing = [], close_raises = False, gemini = None,
      response = Inr (''Here is the summary: '' @ summary_json), loads = json_loads,
      written = None, stamp = ''20260202_114544''\<rparr>"

definition garbled :: externals where
  "garbled = answered\<lparr>response := Inr ''{summary: fever}''\<rparr>"

definition refused :: externals where
  "refused = answered\<lparr>response := Inl (ExternalError ''quota exceeded'')\<rparr>"

definition prose :: externals where
  "prose = answered\<lparr>response := Inr ''The patient reports fever.''\<rparr>"

section \<open>Properties\<close>

subsection \<open>What a message does to the service and to the registry\<close>

lemma on_message_registry [simp]:
  "active_transcriptions (fst (on_message r res st)) = active_transcriptions st"
  by (simp add: on_message_def send_transcript_to_client_def request_sid_def Let_def
      split: option.splits)

lemma on_message_silent [simp]: "snd (on_message r res st) = []"
  by (simp add: on_message_def send_transcript_to_client_def request_sid_def Let_def
      split: option.splits)

lemma on_message_service:
  assumes "services st r = Some svc"
  shows "\<exists>svc'. services (fst (on_message r res st)) r = Some svc' \<and>
           callback svc' = callback svc \<and> connection svc' = connection svc \<and>
           active svc' = active svc \<and>
           final_transcript svc' =
             final_transcript svc @ concat (map (\<lambda>s. s @ '' '') (List.map_filter sentence (filter is_final [res])))"
  using assms
  by (simp add: on_message_def send_transcript_to_client_def request_sid_def Let_def
      List.map_filter_simps split: option.splits)

lemma on_messages_Cons:
  "fst (on_messages r (res # results) st) = fst (on_messages r results (fst (on_message r res st)))"
  by (simp add: Let_def split: prod.splits)

lemma on_messages_Cons_snd:
  "snd (on_messages r (res # results) st) =
     snd (on_message r res st) @ snd (on_messages r results (fst (on_message r res st)))"
  by (simp add: split_beta)

lemma on_messages_registry [simp]:
  "active_transcriptions (fst (on_messages r results st)) = active_transcriptions st"
  by (induction results arbitrary: st) (simp_all add: on_messages_Cons del: on_messages.simps(2))

lemma on_messages_silent [simp]: "snd (on_messages r results st) = []"
  by (induction results arbitrary: st) (simp_all add: on_messages_Cons_snd del: on_messages.simps(2))

lemma map_filter_append:
  "List.map_filter f (xs @ ys) = List.map_filter f xs @ List.map_filter f ys"
  by (simp add: List.map_filter_def)

lemma on_messages_service:
  "services st r = Some svc \<Longrightarrow>
   \<exists>svc'. services (fst (on_messages r results st)) r = Some svc' \<and>
           callback svc' = callback svc \<and> connection svc' = connection svc \<and>
           active svc' = active svc \<and>
           final_transcript svc' =
             final_transcript svc @ concat (map (\<lambda>s. s @ '' '') (List.map_filter sentence (filter is_final results)))"
proof (induction results arbitrary: st svc)
  case Nil
  then show ?case by (simp add: List.map_filter_simps)
next
  case (Cons res results)
  from on_message_service [OF Cons.prems, of res] obtain svc1 where
    s1: "services (fst (on_message r res st)) r = Some svc1"
    and c1: "callback svc1 = callback svc" "connection svc1 = connection svc" "active svc1 = active svc"
    and f1: "final_transcript svc1 =
       final_transcript svc @ concat (map (\<lambda>s. s @ '' '') (List.map_filter sentence (filter is_final [res])))"
    by blast
  from Cons.IH [OF s1] obtain svc' where
    s2: "services (fst (on_messages r results (fst (on_message r res st)))) r = Some svc'"
    and c2: "callback svc' = callback svc1" "connection svc' = connection svc1" "active svc' = active svc1"
    and f2: "final_transcript svc' =
       final_transcript svc1 @ concat (map (\<lambda>s. s @ '' '') (List.map_filter sentence (filter is_final results)))"
    by blast
  have split: "filter is_final (res # results) = filter is_final [res] @ filter is_final results"
    by simp
  show ?case
    unfolding on_messages_Cons split map_filter_append
    using s2 c1 c2 f1 f2 by simp
qed

subsection \<open>The handlers\<close>

lemma start_transcription_registry [simp]:
  "active_transcriptions (fst (start_transcription r up st)) = active_transcriptions st"
  by (simp add: start_transcription_def Let_def split: option.splits upstream.splits)

lemma start_transcription_service:
  "services st r = Some svc \<Longrightarrow>
   services (fst (start_transcription r up st)) r =
     Some (svc\<lparr>callback := True, final_transcript := [], last_interim := [],
               connection := (up \<noteq> Connect_raises \<or> connection svc),
               active := (up = Start_true \<or> active svc)\<rparr>)"
  by (cases up) (simp_all add: start_transcription_def Let_def)

lemma start_reply:
  "key \<noteq> [] \<Longrightarrow>
   snd (handle_start_live_transcription sid data (Some key) now up st) =
     [Transcription_started ''success'' ''Live transcription started'']"
  by (simp add: handle_start_live_transcription_def DeepgramService_def Let_def split: prod.splits)

lemma start_entry:
  "key \<noteq> [] \<Longrightarrow>
   active_transcriptions (fst (handle_start_live_transcription sid data (Some key) now up st)) sid =
     Some \<lparr>service = next_service st,
           language_code = (case data ''language_code'' of None \<Rightarrow> ''en-US'' | Some l \<Rightarrow> l),
           transcript_parts = [], interim_transcript = [], start_time = now\<rparr>"
  by (simp add: handle_start_live_transcription_def DeepgramService_def Let_def split_beta)

lemma start_service:
  "key \<noteq> [] \<Longrightarrow>
   services (fst (handle_start_live_transcription sid data (Some key) now up st)) (next_service st) =
     Some \<lparr>connection = (up \<noteq> Connect_raises), final_transcript = [], last_interim = [],
           active = (up = Start_true), callback = True\<rparr>"
  by (simp add: handle_start_live_transcription_def DeepgramService_def Let_def split_beta
      start_transcription_service)

lemma finish_text:
  assumes "services st r = Some svc"
  shows "snd (snd (finish r tr cr st)) =
           strip (final_transcript svc @
                  concat (map (\<lambda>s. s @ '' '')
                     (List.map_filter sentence (filter is_final (if connection svc then tr else [])))))"
proof (cases "connection svc")
  case False
  with assms show ?thesis
    by (simp add: finish_def final_text_def Let_def List.map_filter_simps)
next
  case True
  let ?st1 = "st\<lparr>services := (services st)(r \<mapsto> svc\<lparr>active := False\<rparr>)\<rparr>"
  have "services ?st1 r = Some (svc\<lparr>active := False\<rparr>)" by simp
  from on_messages_service [OF this, of tr] obtain svc' where
    "services (fst (on_messages r tr ?st1)) r = Some svc'"
    "final_transcript svc' = final_transcript svc @
       concat (map (\<lambda>s. s @ '' '') (List.map_filter sentence (filter is_final tr)))"
    by auto
  with assms True show ?thesis
    by (simp add: finish_def final_text_def Let_def split_beta)
qed

lemma finish_registry [simp]:
  "active_transcriptions (fst (finish r tr cr st)) = active_transcriptions st"
  by (simp add: finish_def Let_def split_beta split: option.splits)

lemma finish_silent [simp]: "fst (snd (finish r tr cr st)) = []"
  by (simp add: finish_def Let_def split_beta split: option.splits)

lemma finalize_outside_request:
  "finalize_transcription None r ext st = (fst (finish r (trailing ext) (close_raises ext) st), [])"
  by (simp add: finalize_transcription_def socketio_emit_def request_sid_def Let_def split_beta
      split: sum.splits)

lemma stop_with_session:
  "active_transcriptions st sid = Some sd \<Longrightarrow>
   handle_stop_live_transcription sid ext st =
     (fst (finish (service sd) (trailing ext) (close_raises ext) st), [])"
  by (simp add: handle_stop_live_transcription_def finalize_outside_request)

lemma stop_registry:
  "active_transcriptions (fst (handle_stop_live_transcription sid ext st)) = active_transcriptions st"
  by (simp add: handle_stop_live_transcription_def finalize_outside_request split: option.splits)

lemma finalize_after_failure:
  assumes "process_final ext (snd (snd (finish r (trailing ext) (close_raises ext) st))) = Inl e"
  shows "snd (finalize_transcription request r ext st) =
           (case request of
              None \<Rightarrow> []
            | Some sid \<Rightarrow> [Live_transcription_error (Failed_to_process e)])"
  using assms
  by (simp add: finalize_transcription_def socketio_emit_def request_sid_def Let_def split_beta
      split: option.splits)

lemma disconnect_registry:
  "active_transcriptions (handle_disconnect sid tr cr st) sid = None"
  by (simp add: handle_disconnect_def Let_def split_beta split: option.splits)

lemma disconnect_missing:
  "active_transcriptions st sid = None \<Longrightarrow> handle_disconnect sid tr cr st = st"
  by (simp add: handle_disconnect_def)

subsection \<open>Evaluating the concrete runs\<close>

lemmas run =
  handle_stop_live_transcription_def finalize_transcription_def socketio_emit_def request_sid_def
  handle_start_live_transcription_def handle_disconnect_def
  dictated_def started_def dictation_def garbled_def refused_def prose_def answered_def summary_json_def
  DeepgramService_def initial_def start_transcription_def en_US_def
  on_message_def sentence_def send_transcript_to_client_def finish_def final_text_def process_final_def
  generate_structured_medical_summary_def Let_def strip_def rstrip_def str_find_def str_rfind_def
  slice_def clip_def continuation_def
  json_loads_def accepting_def start_value_def after_value_def blank_def digit_def hex_digit_def
  ws1_def ws2_def ws3_def List.map_filter_simps

section \<open>The claims\<close>

text \<open>
  C7. Stopping a connection that has no entry in \<open>active_transcriptions\<close> sends one
  \<open>live_transcription_error\<close> event with the text \<open>No active transcription session\<close> and
  leaves the state as it was: the handler returns a reply, it neither stays silent nor
  raises.
\<close>

theorem stop_without_session:
  assumes "active_transcriptions st sid = None"
  shows "handle_stop_live_transcription sid ext st =
           (st, [Live_transcription_error (Literal ''No active transcription session'')])"
  using assms by (simp add: handle_stop_live_transcription_def)

theorem stop_without_session_witness:
  "active_transcriptions initial ''c1'' = None \<and>
   handle_stop_live_transcription ''c1'' answered initial =
     (initial, [Live_transcription_error (Literal ''No active transcription session'')])"
  using stop_without_session [of initial "''c1''" answered] by (simp add: initial_def)

text \<open>
  C9. After a disconnect the connection has no entry in the registry, whatever the state
  before; a further disconnect of the same identifier finds no entry and changes nothing;
  a start for the same identifier then replies \<open>transcription_started\<close> and registers a
  fresh session. The start needs the Deepgram key of the environment, as every start
  does.
\<close>

theorem disconnect_frees_identifier:
  assumes "key \<noteq> []"
  shows "active_transcriptions (handle_disconnect sid tr cr st) sid = None \<and>
         handle_disconnect sid tr' cr' (handle_disconnect sid tr cr st) = handle_disconnect sid tr cr st \<and>
         snd (handle_start_live_transcription sid data (Some key) now up (handle_disconnect sid tr cr st)) =
           [Transcription_started ''success'' ''Live transcription started''] \<and>
         active_transcriptions
           (fst (handle_start_live_transcription sid data (Some key) now up (handle_disconnect sid tr cr st))) sid =
           Some \<lparr>service = next_service (handle_disconnect sid tr cr st),
                 language_code = (case data ''language_code'' of None \<Rightarrow> ''en-US'' | Some l \<Rightarrow> l),
                 transcript_parts = [], interim_transcript = [], start_time = now\<rparr>"
  using assms
  by (simp add: disconnect_registry disconnect_missing start_reply start_entry)

theorem disconnect_frees_identifier_witness:
  "''dg-key'' \<noteq> [] \<and>
   active_transcriptions dictated ''c1'' \<noteq> None \<and>
   active_transcriptions (handle_disconnect ''c1'' [] False dictated) ''c1'' = None \<and>
   snd (handle_start_live_transcription ''c1'' en_US (Some ''dg-key'') 9 Start_true
          (handle_disconnect ''c1'' [] False dictated)) =
     [Transcription_started ''success'' ''Live transcription started'']"
proof -
  have k: "''dg-key'' \<noteq> []" by simp
  have a: "active_transcriptions dictated ''c1'' \<noteq> None" by (simp add: run)
  from disconnect_frees_identifier [OF k, of "''c1''" "[]" False dictated "[]" False en_US 9 Start_true]
  show ?thesis using k a by simp
qed

text \<open>
  C1 as stated fails. The start handler has no check for an existing entry: a second
  start for a connection that has a session is answered with \<open>transcription_started\<close>, and
  the entry is replaced. Here the connection \<open>c1\<close> starts twice; the second entry has a new
  service and a new start time.
\<close>

theorem second_start_counterexample:
  "active_transcriptions started ''c1'' =
     Some \<lparr>service = 0, language_code = ''en-US'', transcript_parts = [],
           interim_transcript = [], start_time = 0\<rparr> \<and>
   snd (handle_start_live_transcription ''c1'' en_US (Some ''dg-key'') 7 Start_true started) =
     [Transcription_started ''success'' ''Live transcription started''] \<and>
   active_transcriptions
     (fst (handle_start_live_transcription ''c1'' en_US (Some ''dg-key'') 7 Start_true started)) ''c1'' =
     Some \<lparr>service = 1, language_code = ''en-US'', transcript_parts = [],
           interim_transcript = [], start_time = 7\<rparr>"
  by (simp add: run)

text \<open>
  C1, amended. A second start for a connection that already has a session is not
  rejected: it replies \<open>transcription_started\<close> and the registry then holds, for that
  identifier, one fresh entry (a new service, no transcript parts, no interim text).
\<close>

theorem second_start_replaces_session:
  assumes "active_transcriptions st sid = Some old" and "key \<noteq> []"
  shows "snd (handle_start_live_transcription sid data (Some key) now up st) =
           [Transcription_started ''success'' ''Live transcription started''] \<and>
         active_transcriptions (fst (handle_start_live_transcription sid data (Some key) now up st)) sid =
           Some \<lparr>service = next_service st,
                 language_code = (case data ''language_code'' of None \<Rightarrow> ''en-US'' | Some l \<Rightarrow> l),
                 transcript_parts = [], interim_transcript = [], start_time = now\<rparr>"
  using assms(2) by (simp add: start_reply start_entry)

theorem second_start_replaces_session_witness:
  "active_transcriptions dictated ''c1'' =
     Some \<lparr>service = 0, language_code = ''en-US'', transcript_parts = [],
           interim_transcript = [], start_time = 0\<rparr> \<and>
   ''dg-key'' \<noteq> [] \<and>
   snd (handle_start_live_transcription ''c1'' en_US (Some ''dg-key'') 7 Start_true dictated) =
     [Transcription_started ''success'' ''Live transcription started''] \<and>
   active_transcriptions
     (fst (handle_start_live_transcription ''c1'' en_US (Some ''dg-key'') 7 Start_true dictated)) ''c1'' =
     Some \<lparr>service = 1, language_code = ''en-US'', transcript_parts = [],
           interim_transcript = [], start_time = 7\<rparr>"
proof -
  have a: "active_transcriptions dictated ''c1'' =
     Some \<lparr>service = 0, language_code = ''en-US'', transcript_parts = [],
           interim_transcript = [], start_time = 0\<rparr>"
    by (simp add: run)
  have k: "''dg-key'' \<noteq> []" by simp
  have n: "next_service dictated = 1" by (simp add: run)
  have l: "en_US ''language_code'' = Some ''en-US''" by (simp add: en_US_def)
  from second_start_replaces_session [OF a k, of en_US 7 Start_true]
  show ?thesis using a k n l by simp
qed

text \<open>
  C2 as stated fails. The handler runs \<open>start_transcription\<close> in a thread and does not read
  its result: when the connection cannot be created the client still receives
  \<open>transcription_started\<close>.
\<close>

theorem failed_start_counterexample:
  "snd (handle_start_live_transcription ''c1'' en_US (Some ''dg-key'') 0 Connect_raises initial) =
     [Transcription_started ''success'' ''Live transcription started'']"
  by (simp add: run)

text \<open>
  C2, amended. When establishing the upstream connection fails (the connection cannot be
  created, or \<open>connection.start\<close> raises or returns a false value) the service is never
  marked active, yet the client receives \<open>transcription_started\<close>, not an error event, and
  the session stays registered.
\<close>

theorem failed_start_is_not_reported:
  assumes "up \<noteq> Start_true" and "key \<noteq> []"
  shows "snd (handle_start_live_transcription sid data (Some key) now up st) =
           [Transcription_started ''success'' ''Live transcription started''] \<and>
         map_option service
           (active_transcriptions (fst (handle_start_live_transcription sid data (Some key) now up st)) sid) =
           Some (next_service st) \<and>
         map_option active
           (services (fst (handle_start_live_transcription sid data (Some key) now up st)) (next_service st)) =
           Some False"
  using assms by (simp add: start_reply start_entry start_service)

theorem failed_start_is_not_reported_witness:
  "Start_false \<noteq> Start_true \<and> ''dg-key'' \<noteq> [] \<and>
   snd (handle_start_live_transcription ''c1'' en_US (Some ''dg-key'') 0 Start_false initial) =
     [Transcription_started ''success'' ''Live transcription started''] \<and>
   map_option service
     (active_transcriptions
        (fst (handle_start_live_transcription ''c1'' en_US (Some ''dg-key'') 0 Start_false initial)) ''c1'') =
     Some 0 \<and>
   map_option active
     (services (fst (handle_start_live_transcription ''c1'' en_US (Some ''dg-key'') 0 Start_false initial)) 0) =
     Some False"
proof -
  have u: "Start_false \<noteq> Start_true" by simp
  have k: "''dg-key'' \<noteq> []" by simp
  have n: "next_service initial = 0" by (simp add: initial_def)
  from failed_start_is_not_reported [OF u k, of "''c1''" en_US 0 initial]
  show ?thesis using u k n by simp
qed

text \<open>
  C8. Finishing a session right after its start, with no message received before or
  during the close, returns the empty text, whatever the connection did at the start and
  whether or not closing it raises. (\<open>send_audio\<close> changes no field of the service, so audio
  would make no difference.)
\<close>

theorem finish_without_audio:
  assumes "key \<noteq> []"
  shows "snd (snd (finish (next_service st) [] cr
                     (fst (handle_start_live_transcription sid data (Some key) now up st)))) = []"
  using assms
  by (simp add: finish_text [OF start_service] List.map_filter_simps strip_def rstrip_def)

theorem finish_without_audio_witness:
  "''dg-key'' \<noteq> [] \<and> snd (snd (finish 0 [] True started)) = []"
proof -
  have k: "''dg-key'' \<noteq> []" by simp
  have n: "next_service initial = 0" by (simp add: initial_def)
  from finish_without_audio [OF k, of initial True "''c1''" en_US 0 Start_true]
  show ?thesis using k n by (simp add: started_def)
qed

subsection \<open>Finding the braces\<close>

lemma find_from_absent: "c \<notin> set s \<Longrightarrow> find_from i c s = -1"
  by (induction s arbitrary: i) auto

lemma find_from_first:
  "c \<notin> set a \<Longrightarrow> find_from i c (a @ c # r) = int (i + length a)"
  by (induction a arbitrary: i) auto

lemma rfind_from_absent: "c \<notin> set s \<Longrightarrow> rfind_from i found c s = found"
  by (induction s arbitrary: i found) auto

lemma rfind_from_last:
  "c \<notin> set s \<Longrightarrow> rfind_from i found c (p @ c # s) = int (i + length p)"
  by (induction p arbitrary: i found) (auto simp: rfind_from_absent)

lemma str_find_absent: "c \<notin> set s \<Longrightarrow> str_find s c = -1"
  by (simp add: str_find_def find_from_absent)

lemma str_rfind_absent: "c \<notin> set s \<Longrightarrow> str_rfind s c = -1"
  by (simp add: str_rfind_def rfind_from_absent)

lemma str_find_first: "c \<notin> set a \<Longrightarrow> str_find (a @ c # r) c = int (length a)"
  by (simp add: str_find_def find_from_first)

lemma str_rfind_last: "c \<notin> set s \<Longrightarrow> str_rfind (p @ c # s) c = int (length p)"
  by (simp add: str_rfind_def rfind_from_last)

lemma slice_middle:
  "slice (a @ b @ c) (int (length a)) (int (length a + length b)) = b"
  by (simp add: slice_def clip_def Let_def min_def)

lemma brace_slice:
  assumes "s = a @ CHR ''{'' # b @ CHR ''}'' # c" and "CHR ''{'' \<notin> set a" and "CHR ''}'' \<notin> set c"
  shows "str_find s (CHR ''{'') = int (length a)"
    and "str_rfind s (CHR ''}'') = int (length a + length b + 1)"
    and "slice s (str_find s (CHR ''{'')) (str_rfind s (CHR ''}'') + 1) = CHR ''{'' # b @ [CHR ''}'']"
proof -
  show f: "str_find s (CHR ''{'') = int (length a)"
    unfolding assms(1) by (rule str_find_first [OF assms(2)])
  have "s = (a @ CHR ''{'' # b) @ CHR ''}'' # c" using assms(1) by simp
  then have "str_rfind s (CHR ''}'') = int (length (a @ CHR ''{'' # b))"
    using str_rfind_last [OF assms(3), of "a @ CHR ''{'' # b"] by simp
  then show r: "str_rfind s (CHR ''}'') = int (length a + length b + 1)" by simp
  have "s = a @ (CHR ''{'' # b @ [CHR ''}'']) @ c" using assms(1) by simp
  then have "slice s (int (length a)) (int (length a + length (CHR ''{'' # b @ [CHR ''}'']))) =
      CHR ''{'' # b @ [CHR ''}'']"
    using slice_middle [of a "CHR ''{'' # b @ [CHR ''}'']" c] by simp
  then show "slice s (str_find s (CHR ''{'')) (str_rfind s (CHR ''}'') + 1) = CHR ''{'' # b @ [CHR ''}'']"
    unfolding f r by (simp add: add.commute)
qed

text \<open>
  C4 as stated fails. \<open>json.loads\<close> is called outside any \<open>try\<close>: when the text between the
  braces is not JSON the parser raises instead of returning placeholder fields.
\<close>

theorem unparseable_summary_counterexample:
  "generate_structured_medical_summary (Inr ''{summary: fever}'') json_loads ''patient reports fever'' =
     Inl JSONDecodeError"
  by (simp add: run)

text \<open>
  C4, amended. The response is stripped first. When its first \<open>{\<close> comes before its last
  \<open>}\<close>, the parser passes the text from that \<open>{\<close> to that \<open>}\<close> to \<open>json.loads\<close> and returns the
  decoded value, and a decoding error is raised to the caller. When the response has no
  \<open>{\<close> or no \<open>}\<close>, the parser returns the dictionary whose \<open>summary\<close> is the first 200 code
  points of the text being summarised and whose other fields are the placeholders
  \<open>Not extracted\<close>, \<open>Not extracted\<close> and \<open>Not specified\<close>.
\<close>

theorem summary_parser:
  "(strip answer = a @ CHR ''{'' # b @ CHR ''}'' # c \<and> CHR ''{'' \<notin> set a \<and> CHR ''}'' \<notin> set c \<longrightarrow>
      generate_structured_medical_summary (Inr answer) loads' translation =
        (case loads' (CHR ''{'' # b @ [CHR ''}'']) of
           Inl e \<Rightarrow> Inl e
         | Inr v \<Rightarrow> Inr (Loaded v))) \<and>
   (CHR ''{'' \<notin> set (strip answer) \<or> CHR ''}'' \<notin> set (strip answer) \<longrightarrow>
      generate_structured_medical_summary (Inr answer) loads' translation =
        Inr (Dict [(''summary'', take_points 200 translation),
                   (''medical_condition'', ''Not extracted''),
                   (''treatment_plan'', ''Not extracted''),
                   (''followup_date'', ''Not specified'')]))"
proof (intro conjI impI)
  assume h: "strip answer = a @ CHR ''{'' # b @ CHR ''}'' # c \<and> CHR ''{'' \<notin> set a \<and> CHR ''}'' \<notin> set c"
  then have d: "strip answer = a @ CHR ''{'' # b @ CHR ''}'' # c"
    and na: "CHR ''{'' \<notin> set a" and nc: "CHR ''}'' \<notin> set c"
    by simp_all
  note bs = brace_slice [OF d na nc]
  have "str_find (strip answer) (CHR ''{'') \<noteq> -1" "str_rfind (strip answer) (CHR ''}'') \<noteq> -1"
    unfolding bs(1,2) by simp_all
  then show "generate_structured_medical_summary (Inr answer) loads' translation =
        (case loads' (CHR ''{'' # b @ [CHR ''}'']) of
           Inl e \<Rightarrow> Inl e
         | Inr v \<Rightarrow> Inr (Loaded v))"
    using bs(3) by (simp add: generate_structured_medical_summary_def Let_def)
next
  assume "CHR ''{'' \<notin> set (strip answer) \<or> CHR ''}'' \<notin> set (strip answer)"
  then have "str_find (strip answer) (CHR ''{'') = -1 \<or> str_rfind (strip answer) (CHR ''}'') = -1"
    using str_find_absent str_rfind_absent by blast
  then show "generate_structured_medical_summary (Inr answer) loads' translation =
        Inr (Dict [(''summary'', take_points 200 translation),
                   (''medical_condition'', ''Not extracted''),
                   (''treatment_plan'', ''Not extracted''),
                   (''followup_date'', ''Not specified'')])"
    by (auto simp: generate_structured_medical_summary_def Let_def)
qed

theorem summary_parser_witness:
  "strip (''Here is the summary: '' @ summary_json) =
     ''Here is the summary: '' @ CHR ''{'' # (tl (butlast summary_json)) @ CHR ''}'' # [] \<and>
   CHR ''{'' \<notin> set ''Here is the summary: '' \<and>
   CHR ''}'' \<notin> set [] \<and>
   generate_structured_medical_summary (Inr (''Here is the summary: '' @ summary_json)) json_loads
     ''patient reports fever'' = Inr (Loaded (JSON summary_json)) \<and>
   CHR ''{'' \<notin> set (strip ''The patient reports fever.'') \<and>
   generate_structured_medical_summary (Inr ''The patient reports fever.'') json_loads
     ''patient reports fever'' =
     Inr (Dict [(''summary'', ''patient reports fever''),
                (''medical_condition'', ''Not extracted''),
                (''treatment_plan'', ''Not extracted''),
                (''followup_date'', ''Not specified'')])"
proof -
  have d: "strip (''Here is the summary: '' @ summary_json) =
     ''Here is the summary: '' @ CHR ''{'' # (tl (butlast summary_json)) @ CHR ''}'' # []"
    by (simp add: summary_json_def strip_def rstrip_def ws1_def ws2_def ws3_def)
  have na: "CHR ''{'' \<notin> set ''Here is the summary: ''" by simp
  have nc: "CHR ''}'' \<notin> set []" by simp
  have j: "CHR ''{'' # (tl (butlast summary_json)) @ [CHR ''}''] = summary_json"
    by (simp add: summary_json_def)
  have l: "json_loads summary_json = Inr (JSON summary_json)"
    by (simp add: run)
  have p: "CHR ''{'' \<notin> set (strip ''The patient reports fever.'')"
    by (simp add: strip_def rstrip_def ws1_def ws2_def ws3_def)
  have t: "take_points 200 ''patient reports fever'' = ''patient reports fever''"
    by (simp add: continuation_def)
  from summary_parser [of "''Here is the summary: '' @ summary_json" "''Here is the summary: ''"
      "tl (butlast summary_json)" "[]" json_loads "''patient reports fever''"]
  have one: "generate_structured_medical_summary (Inr (''Here is the summary: '' @ summary_json)) json_loads
     ''patient reports fever'' = Inr (Loaded (JSON summary_json))"
    using d na nc by (simp add: j l)
  from summary_parser [of "''The patient reports fever.''" _ _ _ json_loads "''patient reports fever''"]
  have two: "generate_structured_medical_summary (Inr ''The patient reports fever.'') json_loads
     ''patient reports fever'' =
     Inr (Dict [(''summary'', ''patient reports fever''),
                (''medical_condition'', ''Not extracted''),
                (''treatment_plan'', ''Not extracted''),
                (''followup_date'', ''Not specified'')])"
    using p by (simp add: t)
  show ?thesis using d na nc one p two by blast
qed

subsection \<open>A session from its start\<close>

lemma session_service:
  assumes "key \<noteq> []"
  shows "\<exists>svc. services (fst (on_messages (next_service st) results
                    (fst (handle_start_live_transcription sid data (Some key) now up st)))) (next_service st) = Some svc \<and>
               connection svc = (up \<noteq> Connect_raises) \<and>
               final_transcript svc = concat (map (\<lambda>s. s @ '' '') (List.map_filter sentence (filter is_final results)))"
proof -
  let ?st1 = "fst (handle_start_live_transcription sid data (Some key) now up st)"
  have "services ?st1 (next_service st) =
      Some \<lparr>connection = (up \<noteq> Connect_raises), final_transcript = [], last_interim = [],
            active = (up = Start_true), callback = True\<rparr>"
    by (rule start_service [OF assms])
  from on_messages_service [OF this] show ?thesis by fastforce
qed

lemma session_entry:
  assumes "key \<noteq> []"
  shows "active_transcriptions (fst (on_messages (next_service st) results
                    (fst (handle_start_live_transcription sid data (Some key) now up st)))) sid =
         Some \<lparr>service = next_service st,
               language_code = (case data ''language_code'' of None \<Rightarrow> ''en-US'' | Some l \<Rightarrow> l),
               transcript_parts = [], interim_transcript = [], start_time = now\<rparr>"
  by (simp add: start_entry [OF assms])

lemma session_finish:
  assumes "key \<noteq> []" and "up \<noteq> Connect_raises"
  shows "snd (snd (finish (next_service st) tr cr
            (fst (on_messages (next_service st) results
                    (fst (handle_start_live_transcription sid data (Some key) now up st)))))) =
         strip (concat (map (\<lambda>s. s @ '' '') (List.map_filter sentence (filter is_final (results @ tr)))))"
proof -
  from session_service [OF assms(1), of st results sid data now up] obtain svc where
    s: "services (fst (on_messages (next_service st) results
          (fst (handle_start_live_transcription sid data (Some key) now up st)))) (next_service st) = Some svc"
    and c: "connection svc = (up \<noteq> Connect_raises)"
    and f: "final_transcript svc = concat (map (\<lambda>s. s @ '' '') (List.map_filter sentence (filter is_final results)))"
    by blast
  from c assms(2) have c': "connection svc" by simp
  show ?thesis
    unfolding finish_text [OF s] using c' f by (simp add: map_filter_append)
qed

text \<open>
  C5 fails on the code. The final branch of \<open>send_transcript_to_client\<close> appends the text
  to \<open>transcript_parts\<close>, as the claim says, but the closure reads \<open>request.sid\<close> first and the
  Deepgram connection calls it outside any request context: it raises before the append,
  and \<open>on_message\<close> catches the exception. After the client \<open>c1\<close> has dictated one utterance
  the service holds the final text while \<open>transcript_parts\<close> is still empty, and no
  \<open>live_transcript\<close> event has been sent.
\<close>

theorem transcript_parts_stay_empty:
  "List.map_filter sentence (filter is_final dictation) = [''patient reports fever''] \<and>
   map_option final_transcript (services dictated 0) = Some ''patient reports fever '' \<and>
   map_option transcript_parts (active_transcriptions dictated ''c1'') = Some [] \<and>
   snd (on_messages 0 dictation started) = []"
  by (simp add: run)

text \<open>
  C6 fails on the code. \<open>finish\<close> returns the text the claim describes, and the \<open>try\<close> block
  builds the \<open>live_transcription_complete\<close> event around it, but the emit reads
  \<open>request.sid\<close> in the thread \<open>finalize_transcription\<close>, outside the handler's request
  context: it raises, the emit of the \<open>except\<close> branch raises as well, and nothing is
  delivered. Here the client \<open>c1\<close> stops after the utterance \<open>patient reports fever\<close>.
\<close>

theorem final_transcript_not_delivered:
  "snd (snd (finish 0 (trailing answered) (close_raises answered) dictated)) = ''patient reports fever'' \<and>
   process_final answered ''patient reports fever'' =
     Inr (Live_transcription_complete True ''patient reports fever'' ''patient reports fever''
            (Loaded (JSON summary_json)) ''recordings/live_20260202_114544.txt'') \<and>
   snd (handle_stop_live_transcription ''c1'' answered dictated) = []"
  by (simp add: run)

text \<open>
  C10 fails on the code. \<open>finalize_transcription\<close> ends with the deletion of the entry, as
  the claim says, but it never gets there: both emits before it raise on \<open>request.sid\<close>
  outside the handler's request context, and the second exception ends the thread. After
  the stop of \<open>c1\<close> the entry is still registered.
\<close>

theorem stop_keeps_session:
  "active_transcriptions dictated ''c1'' =
     Some \<lparr>service = 0, language_code = ''en-US'', transcript_parts = [],
           interim_transcript = [], start_time = 0\<rparr> \<and>
   active_transcriptions (fst (handle_stop_live_transcription ''c1'' answered dictated)) ''c1'' =
     Some \<lparr>service = 0, language_code = ''en-US'', transcript_parts = [],
           interim_transcript = [], start_time = 0\<rparr> \<and>
   active_transcriptions (fst (handle_stop_live_transcription ''c1'' garbled dictated)) ''c1'' =
     Some \<lparr>service = 0, language_code = ''en-US'', transcript_parts = [],
           interim_transcript = [], start_time = 0\<rparr>"
  by (simp add: run)

text \<open>
  C3 as stated fails. When the summary step raises, the \<open>try\<close> block of
  \<open>finalize_transcription\<close> is left for its \<open>except\<close> branch before the result is built: no
  placeholder summary is substituted and the stop delivers no
  \<open>live_transcription_complete\<close> event. Here the model's answer is not JSON, or the call to
  the model raises.
\<close>

theorem summary_failure_counterexample:
  "active_transcriptions dictated ''c1'' =
     Some \<lparr>service = 0, language_code = ''en-US'', transcript_parts = [],
           interim_transcript = [], start_time = 0\<rparr> \<and>
   process_final garbled ''patient reports fever'' = Inl JSONDecodeError \<and>
   snd (handle_stop_live_transcription ''c1'' garbled dictated) = [] \<and>
   process_final refused ''patient reports fever'' = Inl (ExternalError ''quota exceeded'') \<and>
   snd (handle_stop_live_transcription ''c1'' refused dictated) = []"
  by (simp add: run)

text \<open>
  C3, amended. For every stop of an active session, if the summary step raises (the call
  to the model raises, or the text between the braces of its answer is not JSON), the
  \<open>try\<close> block ends with that exception: no result with a placeholder summary is built,
  and the stop delivers no \<open>live_transcription_complete\<close> event, in whatever request
  context \<open>finalize_transcription\<close> runs.
\<close>

theorem stop_after_summary_failure:
  fixes sid :: sid and ext :: externals and st :: state and sd :: session
  defines "final \<equiv> snd (snd (finish (service sd) (trailing ext) (close_raises ext) st))"
  assumes "active_transcriptions st sid = Some sd"
    and "gemini ext = None"
    and "generate_structured_medical_summary (response ext) (loads ext) final = Inl e"
  shows "process_final ext final = Inl e \<and>
         Live_transcription_complete ok t t' summary path \<notin>
           set (snd (finalize_transcription request (service sd) ext st)) \<and>
         Live_transcription_complete ok t t' summary path \<notin>
           set (snd (handle_stop_live_transcription sid ext st))"
proof (intro conjI)
  show p: "process_final ext final = Inl e"
    using assms(3,4) by (simp add: process_final_def)
  from p have "snd (finalize_transcription request (service sd) ext st) =
      (case request of None \<Rightarrow> [] | Some c \<Rightarrow> [Live_transcription_error (Failed_to_process e)])"
    unfolding final_def by (rule finalize_after_failure)
  then show "Live_transcription_complete ok t t' summary path \<notin>
      set (snd (finalize_transcription request (service sd) ext st))"
    by (simp split: option.splits)
  show "Live_transcription_complete ok t t' summary path \<notin>
      set (snd (handle_stop_live_transcription sid ext st))"
    by (simp add: stop_with_session [OF assms(2)])
qed

theorem stop_after_summary_failure_witness:
  "active_transcriptions dictated ''c1'' =
     Some \<lparr>service = 0, language_code = ''en-US'', transcript_parts = [],
           interim_transcript = [], start_time = 0\<rparr> \<and>
   gemini garbled = None \<and>
   generate_structured_medical_summary (response garbled) (loads garbled) ''patient reports fever'' =
     Inl JSONDecodeError \<and>
   process_final garbled ''patient reports fever'' = Inl JSONDecodeError \<and>
   Live_transcription_complete True ''patient reports fever'' ''patient reports fever''
       (Dict [(''summary'', ''patient reports fever''),
              (''medical_condition'', ''Not extracted''),
              (''treatment_plan'', ''Not extracted''),
              (''followup_date'', ''Not specified'')])
       ''recordings/live_20260202_114544.txt'' \<notin>
     set (snd (handle_stop_live_transcription ''c1'' garbled dictated))"
proof -
  have a: "active_transcriptions dictated ''c1'' =
     Some \<lparr>service = 0, language_code = ''en-US'', transcript_parts = [],
           interim_transcript = [], start_time = 0\<rparr>"
    by (simp add: run)
  have g: "gemini garbled = None" "trailing garbled = []" "close_raises garbled = False"
    by (simp_all add: garbled_def answered_def)
  have f: "snd (snd (finish 0 [] False dictated)) = ''patient reports fever''"
    by (simp add: run)
  have e: "generate_structured_medical_summary (response garbled) (loads garbled) ''patient reports fever'' =
     Inl JSONDecodeError"
    by (simp add: run)
  from e have e': "generate_structured_medical_summary (response garbled) (loads garbled)
      (snd (snd (finish (service \<lparr>service = 0, language_code = ''en-US'', transcript_parts = [],
           interim_transcript = [], start_time = 0\<rparr>) (trailing garbled) (close_raises garbled) dictated))) =
     Inl JSONDecodeError"
    by (simp add: g f)
  from stop_after_summary_failure [OF a g(1) e']
  show ?thesis using a g(1) e by (simp add: g f)
qed

end
